theory Spec2Isabelle
  imports Main "HOL-Library.Word" "HOL-Library.Char_ord" "HOL-Library.List_Lexorder"
begin

unbundle bit_operations_syntax

section \<open>Tree model\<close>

text \<open>
  The nodes of the file system table.  The class \<open>FSTNode\<close> lives in \<open>pyisotools/fst.py\<close>;
  \<open>iso.py\<close> reads and writes the fields below.  Python integers are unbounded, so every
  numeric field is an \<open>int\<close>; \<open>_position\<close> is \<open>None\<close> or an integer.
\<close>

datatype node_type = FILE | FOLDER

record attrs =
  name :: string
  ntype :: node_type
  node_id :: int
  filesize :: int
  fileoffset :: int
  dirparent :: int
  dirnext :: int
  alignment :: int
  position :: "int option"
  exclude :: bool

datatype FSTNode = FSTNode (attrs: attrs) (children: "FSTNode list")

text \<open>
  Modelled from the spec: the constructors \<open>FSTNode.file\<close> and \<open>FSTNode.folder\<close> are not among
  the sources.  A directory starts with the defaults of the spec (3): alignment 4, no forced
  location, not excluded; \<open>_load_from_path\<close> sets the size, alignment, forced location and
  exclusion of a file right after creating it, so the constructor of a file takes them.
\<close>

definition file_node :: "string \<Rightarrow> int \<Rightarrow> int \<Rightarrow> int option \<Rightarrow> bool \<Rightarrow> FSTNode" where
  "file_node nm sz al pos ex =
     FSTNode \<lparr>name = nm, ntype = FILE, node_id = 0, filesize = sz, fileoffset = 0,
       dirparent = 0, dirnext = 0, alignment = al, position = pos, exclude = ex\<rparr> []"

definition folder_node :: "string \<Rightarrow> FSTNode list \<Rightarrow> FSTNode" where
  "folder_node nm cs =
     FSTNode \<lparr>name = nm, ntype = FOLDER, node_id = 0, filesize = 0, fileoffset = 0,
       dirparent = 0, dirnext = 0, alignment = 4, position = None, exclude = False\<rparr> cs"

definition is_file :: "FSTNode \<Rightarrow> bool" where
  "is_file n = (ntype (attrs n) = FILE)"

definition is_dir :: "FSTNode \<Rightarrow> bool" where
  "is_dir n = (ntype (attrs n) = FOLDER)"

text \<open>Python truthiness of \<open>child._position\<close>: \<open>None\<close> and \<open>0\<close> are both false.\<close>

definition truthy :: "int option \<Rightarrow> bool" where
  "truthy p = (case p of None \<Rightarrow> False | Some v \<Rightarrow> v \<noteq> 0)"

text \<open>
  Modelled from the spec: \<open>iohelper.align_int\<close> is not among the sources.  The spec uses it as
  ``round the running total up to the file's alignment'': the least multiple of the alignment
  that is not below the number.
\<close>

definition align_int :: "int \<Rightarrow> int \<Rightarrow> int" where
  "align_int num al = ((num + (al - 1)) div al) * al"

text \<open>
  Modelled from the spec: the property \<open>FSTNode.rchildren\<close> is not among the sources.  The spec
  (4.1): all descendants, pre-order depth-first, a directory before its children, siblings in
  stored order.
\<close>

fun rchildren :: "FSTNode \<Rightarrow> FSTNode list"
  and rchildren_list :: "FSTNode list \<Rightarrow> FSTNode list" where
  "rchildren (FSTNode a cs) = rchildren_list cs"
| "rchildren_list [] = []"
| "rchildren_list (c # cs) = c # rchildren c @ rchildren_list cs"

text \<open>
  Modelled from the spec: \<open>FSTNode.__len__\<close> and the \<open>size\<close> of a directory are not among the
  sources.  The spec (3, 4.2): \<open>dirNextId\<close> is the entry id one past the last descendant, and
  the entry count of the table includes the root; so a node counts itself and its included
  descendants.
\<close>

definition len_node :: "FSTNode \<Rightarrow> int" where
  "len_node n = 1 + int (length (filter (\<lambda>c. \<not> exclude (attrs c)) (rchildren n)))"

text \<open>\<open>node.size\<close>: the stored size of a file; for a directory see \<open>len_node\<close>.\<close>

definition node_size :: "FSTNode \<Rightarrow> int" where
  "node_size n = (if is_file n then filesize (attrs n) else len_node n)"

section \<open>Override tables\<close>

text \<open>
  The alignment and location tables are \<open>SortedDict\<close>s of the library sortedcontainers, the
  exclusion table a \<open>SortedList\<close>: containers that iterate in the sort order of their keys.  A
  table is held as the list of its items in that order; \<open>SortedDict\<close> builds it from the items
  of the dictionary read from the configuration, whose keys are distinct.  Strings compare
  lexicographically by character code, as Python's do.
\<close>

definition SortedDict :: "(string \<times> 'v) list \<Rightarrow> (string \<times> 'v) list" where
  "SortedDict d = sort_key fst d"

definition SortedList :: "string list \<Rightarrow> string list" where
  "SortedList xs = sort xs"

text \<open>\<open>str.strip()\<close>: drops the white space at both ends.\<close>

definition is_space :: "char \<Rightarrow> bool" where
  "is_space c = (of_char c \<in> set [9, 10, 11, 12, 13, 28, 29, 30, 31, 32 :: nat])"

definition strip :: "string \<Rightarrow> string" where
  "strip s = rev (dropWhile is_space (rev (dropWhile is_space s)))"

text \<open>
  \<open>fnmatch\<close> is Python's library function; the functions below take it as the parameter
  \<open>fnmatch\<close> (name first, pattern second).  \<open>glob_match\<close> is what it computes for a pattern made
  of literal characters, \<open>*\<close> (any run of characters) and \<open>?\<close> (any one character), and is
  used where a concrete matcher is needed.
\<close>

fun glob_match :: "string \<Rightarrow> string \<Rightarrow> bool" where
  "glob_match [] [] = True"
| "glob_match (c # cs) [] = False"
| "glob_match [] (p # ps) = (p = CHR ''*'' \<and> glob_match [] ps)"
| "glob_match (c # cs) (p # ps) =
     (if p = CHR ''*'' then glob_match (c # cs) ps \<or> glob_match cs (p # ps)
      else (p = CHR ''?'' \<or> p = c) \<and> glob_match cs ps)"

text \<open>\<open>ISOBase._get_alignment\<close>, for a path given as a string; the loop over \<open>items()\<close> first.\<close>

fun alignment_loop ::
  "(string \<Rightarrow> string \<Rightarrow> bool) \<Rightarrow> string \<Rightarrow> (string \<times> int) list \<Rightarrow> int" where
  "alignment_loop fnmatch path [] = 4"
| "alignment_loop fnmatch path ((entry, align) # rest) =
     (if fnmatch path (strip entry) then align else alignment_loop fnmatch path rest)"

definition get_alignment ::
  "(string \<Rightarrow> string \<Rightarrow> bool) \<Rightarrow> (string \<times> int) list \<Rightarrow> string \<Rightarrow> int" where
  "get_alignment fnmatch alignmentTable path =
     (if alignmentTable \<noteq> [] then alignment_loop fnmatch path alignmentTable else 4)"

text \<open>\<open>ISOBase._get_greatest_alignment\<close>: \<open>peekitem()\<close> is the item of the last key; it raises
  \<open>IndexError\<close> on an empty table, which the function answers with 4.\<close>

definition get_greatest_alignment :: "(string \<times> int) list \<Rightarrow> int" where
  "get_greatest_alignment alignmentTable =
     (if alignmentTable = [] then 4 else snd (last alignmentTable))"


text \<open>\<open>ISOBase._get_excluded\<close>.\<close>

fun excluded_loop :: "(string \<Rightarrow> string \<Rightarrow> bool) \<Rightarrow> string \<Rightarrow> string list \<Rightarrow> bool" where
  "excluded_loop fnmatch path [] = False"
| "excluded_loop fnmatch path (entry # rest) =
     (if fnmatch path (strip entry) then True else excluded_loop fnmatch path rest)"

definition get_excluded :: "(string \<Rightarrow> string \<Rightarrow> bool) \<Rightarrow> string list \<Rightarrow> string \<Rightarrow> bool" where
  "get_excluded fnmatch excludeTable path =
     (if excludeTable \<noteq> [] then excluded_loop fnmatch path excludeTable else False)"

section \<open>Layout planner\<close>

definition MaxSize :: int where
  "MaxSize = 1459978240"

text \<open>\<open>GamecubeISO.get_auto_blob_size\<close> with its inner \<open>_collect_size\<close>.\<close>

fun collect_size :: "FSTNode \<Rightarrow> int \<Rightarrow> int"
  and collect_size_loop :: "FSTNode list \<Rightarrow> int \<Rightarrow> int" where
  "collect_size (FSTNode a cs) sz = collect_size_loop cs sz"
| "collect_size_loop [] sz = sz"
| "collect_size_loop (child # cs) sz =
     (if exclude (attrs child) \<or> truthy (position (attrs child)) then collect_size_loop cs sz
      else if is_file child
        then collect_size_loop cs (align_int sz (alignment (attrs child)) + node_size child)
        else collect_size_loop cs (collect_size child sz))"

definition get_auto_blob_size :: "FSTNode \<Rightarrow> int" where
  "get_auto_blob_size root = collect_size root 0"

text \<open>
  \<open>GamecubeISO.pre_calc_metadata\<close>.  The body of its loop, for one node of \<open>rchildren\<close>:
  \<open>pid\<close> is \<open>child.parent._id\<close>, \<open>dsize\<close> is \<open>child.size\<close> of a directory, the state is
  \<open>(_dataOfs, _curEntry)\<close>.
\<close>

definition pre_calc_step :: "int \<Rightarrow> int \<Rightarrow> attrs \<Rightarrow> int \<times> int \<Rightarrow> attrs \<times> (int \<times> int)" where
  "pre_calc_step pid dsize child st =
     (let (dataOfs, curEntry) = st;
          c1 = (if ntype child = FILE \<and> truthy (position child)
                then child\<lparr>fileoffset := align_int (the (position child)) (alignment child)\<rparr>
                else child)
      in if exclude c1
         then ((if ntype c1 = FILE then c1\<lparr>fileoffset := 0\<rparr> else c1), (dataOfs, curEntry))
         else let c2 = c1\<lparr>node_id := curEntry\<rparr>
              in if ntype c2 = FILE
                 then (c2\<lparr>fileoffset := align_int dataOfs (alignment c2)\<rparr>,
                       (dataOfs + filesize c2, curEntry + 1))
                 else (c2\<lparr>dirparent := pid, dirnext := dsize + node_id c2\<rparr>,
                       (dataOfs, curEntry + 1)))"

fun pre_calc_node :: "int \<Rightarrow> FSTNode \<Rightarrow> int \<times> int \<Rightarrow> FSTNode \<times> (int \<times> int)"
  and pre_calc_loop :: "int \<Rightarrow> FSTNode list \<Rightarrow> int \<times> int \<Rightarrow> FSTNode list \<times> (int \<times> int)" where
  "pre_calc_node pid (FSTNode a cs) st =
     (case pre_calc_step pid (len_node (FSTNode a cs)) a st of
        (a', st') \<Rightarrow>
          (case pre_calc_loop (node_id a') cs st' of
             (cs', st'') \<Rightarrow> (FSTNode a' cs', st'')))"
| "pre_calc_loop pid [] st = ([], st)"
| "pre_calc_loop pid (c # cs) st =
     (case pre_calc_node pid c st of
        (c', st') \<Rightarrow>
          (case pre_calc_loop pid cs st' of
             (cs', st'') \<Rightarrow> (c' # cs', st'')))"

definition pre_calc_metadata :: "FSTNode \<Rightarrow> int \<Rightarrow> FSTNode" where
  "pre_calc_metadata root startpos =
     FSTNode (attrs root)
       (fst (pre_calc_loop (node_id (attrs root)) (children root) (align_int startpos 4, 1)))"


text \<open>
  The head of \<open>GamecubeISO.save_file_systemv\<close>: the layout pass it runs before it writes the
  table.  Reloading the tables (\<open>_init_tables\<close>) changes no node.  The parameter \<open>startpos\<close> is
  not read anywhere in the function.
\<close>

definition save_layout :: "int \<Rightarrow> bool \<Rightarrow> bool \<Rightarrow> FSTNode \<Rightarrow> FSTNode" where
  "save_layout startpos useConfig preCalc root =
     (if useConfig then pre_calc_metadata root (MaxSize - get_auto_blob_size root)
      else if preCalc then pre_calc_metadata root (MaxSize - get_auto_blob_size root)
      else root)"

text \<open>The first argument of the call of \<open>save_file_systemv\<close> in \<open>GamecubeISO.build\<close>.\<close>

definition build_startpos :: "(string \<times> int) list \<Rightarrow> FSTNode \<Rightarrow> int" where
  "build_startpos alignmentTable root =
     (MaxSize - get_auto_blob_size root) AND (- get_greatest_alignment alignmentTable)"

text \<open>The files that the layout pass places: the files of \<open>rchildren\<close> that are not excluded.\<close>

definition placed :: "attrs \<Rightarrow> bool" where
  "placed a = (ntype a = FILE \<and> \<not> exclude a)"

definition placed_files :: "FSTNode \<Rightarrow> attrs list" where
  "placed_files root = filter placed (map attrs (rchildren root))"

text \<open>
  The offsets that the loop of \<open>pre_calc_metadata\<close> gives to the placed files of a list of
  nodes, from the running offset \<open>d\<close>; and the fields of a node that the loop reads and does
  not change.
\<close>

fun place_offsets :: "attrs list \<Rightarrow> int \<Rightarrow> int list" where
  "place_offsets [] d = []"
| "place_offsets (a # as) d =
     (if placed a then align_int d (alignment a) # place_offsets as (d + filesize a)
      else place_offsets as d)"

definition layout_key :: "attrs \<Rightarrow> node_type \<times> bool \<times> int \<times> int" where
  "layout_key a = (ntype a, exclude a, filesize a, alignment a)"

section \<open>Errors\<close>

text \<open>
  The exceptions of the code, as values.  \<open>ReadError\<close> stands for the failure of a reading
  helper of \<open>iohelper\<close> that finds fewer bytes than it needs, \<open>OSError\<close> for a seek to a negative
  offset, \<open>OverflowError\<close> for an integer that does not fit the bytes it is written to.
\<close>

datatype error =
    InvalidFSTError
  | FileSystemTooLargeError int int
  | ReadError
  | OSError
  | OverflowError

type_synonym byte = "8 word"

section \<open>Writing the image\<close>

text \<open>
  The image file that \<open>build\<close> opens for writing: its bytes (a function of the offset,
  meaningful below the size), its size and the position of the next write.
\<close>

record ofile =
  odata :: "int \<Rightarrow> byte"
  osize :: int
  opos :: int

text \<open>\<open>write\<close>: at the position, over what is there; a gap past the old end reads as zeros.\<close>

definition owrite :: "byte list \<Rightarrow> ofile \<Rightarrow> ofile" where
  "owrite bs f =
     (if bs = [] then f
      else \<lparr>odata = (\<lambda>i. if opos f \<le> i \<and> i < opos f + int (length bs) then bs ! nat (i - opos f)
                         else if osize f \<le> i \<and> i < opos f then 0
                         else odata f i),
            osize = max (osize f) (opos f + int (length bs)),
            opos = opos f + int (length bs)\<rparr>)"

text \<open>\<open>b"\x00" * n\<close>: empty when \<open>n\<close> is not positive.\<close>

definition zeros :: "int \<Rightarrow> byte list" where
  "zeros n = replicate (nat n) 0"

definition oseek :: "int \<Rightarrow> ofile \<Rightarrow> error + ofile" where
  "oseek p f = (if p < 0 then Inl OSError else Inr (f\<lparr>opos := p\<rparr>))"

definition oseek_end :: "ofile \<Rightarrow> ofile" where
  "oseek_end f = f\<lparr>opos := osize f\<rparr>"

text \<open>
  Modelled from the spec: the property \<open>FSTNode.path\<close> is not among the sources.  The spec (3):
  the names of the ancestors below the root and of the node, joined by slashes.
\<close>

definition join_path :: "string \<Rightarrow> string \<Rightarrow> string" where
  "join_path prefix nm = (if prefix = [] then nm else prefix @ ''/'' @ nm)"

fun rchildren_paths :: "string \<Rightarrow> FSTNode \<Rightarrow> (string \<times> FSTNode) list"
  and rchildren_paths_list :: "string \<Rightarrow> FSTNode list \<Rightarrow> (string \<times> FSTNode) list" where
  "rchildren_paths prefix (FSTNode a cs) = rchildren_paths_list prefix cs"
| "rchildren_paths_list prefix [] = []"
| "rchildren_paths_list prefix (c # cs) =
     (join_path prefix (name (attrs c)), c)
       # rchildren_paths (join_path prefix (name (attrs c))) c
       @ rchildren_paths_list prefix cs"

text \<open>
  Modelled from the spec: the property \<open>FSTNode.rfiles\<close> is not among the sources.  The builder
  of the spec (4.4) writes each included file in the order of the table: the files among
  \<open>rchildren\<close>, here with their paths.
\<close>

definition rfiles :: "FSTNode \<Rightarrow> (string \<times> FSTNode) list" where
  "rfiles root = filter (\<lambda>(p, c). is_file c) (rchildren_paths [] root)"

text \<open>
  The loop of \<open>GamecubeISO.build\<close> that writes the files (\<open>read_bytes\<close> gives the bytes of the
  host file of a path), and the zero padding up to \<open>MaxSize\<close> after it.
\<close>

fun write_files ::
  "(string \<Rightarrow> string \<Rightarrow> bool) \<Rightarrow> string list \<Rightarrow> (string \<Rightarrow> byte list) \<Rightarrow>
   (string \<times> FSTNode) list \<Rightarrow> ofile \<Rightarrow> error + ofile" where
  "write_files fnmatch excludeTable read_bytes [] ISO = Inr ISO"
| "write_files fnmatch excludeTable read_bytes ((path, child) # rest) ISO =
     (if is_file child \<and> \<not> get_excluded fnmatch excludeTable path
      then (case oseek (fileoffset (attrs child))
                   (owrite (zeros (fileoffset (attrs child) - opos ISO)) ISO) of
              Inl e \<Rightarrow> Inl e
            | Inr ISO' \<Rightarrow>
                write_files fnmatch excludeTable read_bytes rest
                  (oseek_end (owrite (read_bytes path) ISO')))
      else write_files fnmatch excludeTable read_bytes rest ISO)"

definition build_files ::
  "(string \<Rightarrow> string \<Rightarrow> bool) \<Rightarrow> string list \<Rightarrow> (string \<Rightarrow> byte list) \<Rightarrow>
   FSTNode \<Rightarrow> ofile \<Rightarrow> error + ofile" where
  "build_files fnmatch excludeTable read_bytes root ISO =
     (case write_files fnmatch excludeTable read_bytes (rfiles root) ISO of
        Inl e \<Rightarrow> Inl e
      | Inr ISO' \<Rightarrow> Inr (owrite (zeros (MaxSize - opos ISO')) ISO'))"

section \<open>Building from a root directory\<close>








section \<open>Binary codec of the table\<close>

text \<open>
  A \<open>BytesIO\<close> buffer: its bytes and its position.  \<open>read\<close> returns the bytes that are there, fewer
  than asked for at the end of the buffer; \<open>write\<close> overwrites at the position, and fills a gap
  between the end of the buffer and the position with zeros.
\<close>

record BytesIO =
  getvalue :: "byte list"
  tell :: nat

definition sread :: "nat \<Rightarrow> BytesIO \<Rightarrow> byte list \<times> BytesIO" where
  "sread n f =
     (let bs = take n (drop (tell f) (getvalue f)) in (bs, f\<lparr>tell := tell f + length bs\<rparr>))"

definition sseek :: "nat \<Rightarrow> BytesIO \<Rightarrow> BytesIO" where
  "sseek p f = f\<lparr>tell := p\<rparr>"

definition put_bytes :: "nat \<Rightarrow> byte list \<Rightarrow> byte list \<Rightarrow> byte list" where
  "put_bytes p bs d =
     (if bs = [] then d
      else take p (d @ replicate (p - length d) 0) @ bs @ drop (p + length bs) d)"

definition swrite :: "byte list \<Rightarrow> BytesIO \<Rightarrow> BytesIO" where
  "swrite bs f = \<lparr>getvalue = put_bytes (tell f) bs (getvalue f), tell = tell f + length bs\<rparr>"

text \<open>\<open>int.from_bytes(bs, "big", signed=False)\<close> and \<open>n.to_bytes(k, "big", signed=False)\<close>; the
  latter raises \<open>OverflowError\<close> when \<open>n\<close> is negative or needs more than \<open>k\<close> bytes.\<close>

definition from_bytes_big :: "byte list \<Rightarrow> nat" where
  "from_bytes_big bs = foldl (\<lambda>acc b. acc * 256 + unat b) 0 bs"

fun bytes_big :: "nat \<Rightarrow> nat \<Rightarrow> byte list" where
  "bytes_big 0 n = []"
| "bytes_big (Suc k) n = bytes_big k (n div 256) @ [of_nat (n mod 256)]"

definition to_bytes_big :: "nat \<Rightarrow> int \<Rightarrow> error + byte list" where
  "to_bytes_big k n =
     (if 0 \<le> n \<and> n < 256 ^ k then Inr (bytes_big k (nat n)) else Inl OverflowError)"

text \<open>
  Modelled from the spec: \<open>iohelper.read_ubyte\<close>, \<open>read_uint32\<close>, \<open>write_uint32\<close> and
  \<open>read_string\<close> are not among the sources.  The spec (4.2, 6): a one-byte type tag; fields of
  four bytes, big-endian and unsigned; a name is the null-terminated string at its offset.  What
  the spec leaves open is modelled as the failure of the helper: a read that finds fewer bytes
  than the field has, or no terminator before the end of the buffer, is \<open>ReadError\<close>; a value that
  does not fit four bytes is \<open>OverflowError\<close>.  A name is kept as the string of its bytes; this
  is its Shift-JIS text as long as its characters are single-byte.
\<close>

definition read_ubyte :: "BytesIO \<Rightarrow> error + nat \<times> BytesIO" where
  "read_ubyte f =
     (case sread 1 f of (bs, f') \<Rightarrow>
        if length bs = 1 then Inr (from_bytes_big bs, f') else Inl ReadError)"

definition read_uint32 :: "BytesIO \<Rightarrow> error + nat \<times> BytesIO" where
  "read_uint32 f =
     (case sread 4 f of (bs, f') \<Rightarrow>
        if length bs = 4 then Inr (from_bytes_big bs, f') else Inl ReadError)"

definition write_uint32 :: "BytesIO \<Rightarrow> int \<Rightarrow> error + BytesIO" where
  "write_uint32 f v =
     (case to_bytes_big 4 v of Inl e \<Rightarrow> Inl e | Inr bs \<Rightarrow> Inr (swrite bs f))"

definition decode_name :: "byte list \<Rightarrow> string" where
  "decode_name bs = map (\<lambda>b. char_of (unat b)) bs"

definition encode_name :: "string \<Rightarrow> byte list" where
  "encode_name s = map (\<lambda>c. of_nat (of_char c)) s"

definition read_string :: "BytesIO \<Rightarrow> nat \<Rightarrow> error + string \<times> BytesIO" where
  "read_string f offset =
     (let rest = drop offset (getvalue f)
      in if 0 \<in> set rest
         then Inr (decode_name (takeWhile (\<lambda>b. b \<noteq> 0) rest),
                   f\<lparr>tell := offset + length (takeWhile (\<lambda>b. b \<noteq> 0) rest) + 1\<rparr>)
         else Inl ReadError)"

text \<open>
  Modelled from the spec: the constructor \<open>FSTNode.empty\<close> is not among the sources; the
  defaults are those of the spec (3).
\<close>

definition empty_node :: attrs where
  "empty_node = \<lparr>name = [], ntype = FILE, node_id = 0, filesize = 0, fileoffset = 0,
       dirparent = 0, dirnext = 0, alignment = 4, position = None, exclude = False\<rparr>"

text \<open>
  \<open>ISOBase._read_nodes\<close> and the loop \<open>while self._curEntry < _size\<close> in it.  The state is the
  buffer and \<open>self._curEntry\<close>.  The recursion follows the data, so it is given fuel: \<open>None\<close> is
  a run that the fuel did not suffice for.
\<close>

fun read_nodes ::
    "nat \<Rightarrow> nat \<Rightarrow> BytesIO \<times> int \<Rightarrow> (error + FSTNode \<times> (BytesIO \<times> int)) option"
  and read_children ::
    "nat \<Rightarrow> nat \<Rightarrow> int \<Rightarrow> BytesIO \<times> int \<Rightarrow> (error + FSTNode list \<times> (BytesIO \<times> int)) option"
  where
  "read_nodes 0 strTabOfs st = None"
| "read_nodes (Suc fuel) strTabOfs (fst0, curEntry) =
     (case read_ubyte fst0 of
        Inl e \<Rightarrow> Some (Inl e)
      | Inr (type, fst1) \<Rightarrow>
     (case sread 3 fst1 of (bs, fst2) \<Rightarrow>
     (case read_uint32 fst2 of
        Inl e \<Rightarrow> Some (Inl e)
      | Inr (entryOfs, fst3) \<Rightarrow>
     (case read_uint32 fst3 of
        Inl e \<Rightarrow> Some (Inl e)
      | Inr (sz, fst4) \<Rightarrow>
     (case read_string fst4 (strTabOfs + from_bytes_big bs) of
        Inl e \<Rightarrow> Some (Inl e)
      | Inr (nm, fst5) \<Rightarrow>
          let fst6 = sseek (tell fst4) fst5;
              node = empty_node\<lparr>name := nm, node_id := curEntry\<rparr>
          in if type = 1
             then (case read_children fuel strTabOfs (int sz) (fst6, curEntry + 1) of
                     None \<Rightarrow> None
                   | Some (Inl e) \<Rightarrow> Some (Inl e)
                   | Some (Inr (cs, st)) \<Rightarrow>
                       Some (Inr (FSTNode (node\<lparr>ntype := FOLDER, dirparent := int entryOfs,
                                                dirnext := int sz\<rparr>) cs, st)))
             else Some (Inr (FSTNode (node\<lparr>ntype := FILE, filesize := int sz,
                                            fileoffset := int entryOfs\<rparr>) [],
                             (fst6, curEntry + 1))))))))"
| "read_children 0 strTabOfs bound st = None"
| "read_children (Suc fuel) strTabOfs bound (fst0, curEntry) =
     (if curEntry < bound
      then (case read_nodes fuel strTabOfs (fst0, curEntry) of
              None \<Rightarrow> None
            | Some (Inl e) \<Rightarrow> Some (Inl e)
            | Some (Inr (child, st)) \<Rightarrow>
                (case read_children fuel strTabOfs bound st of
                   None \<Rightarrow> None
                 | Some (Inl e) \<Rightarrow> Some (Inl e)
                 | Some (Inr (cs, st')) \<Rightarrow> Some (Inr (child # cs, st'))))
      else Some (Inr ([], (fst0, curEntry))))"

text \<open>
  \<open>GamecubeISO.load_file_systemv\<close> on a buffer at position 0, into a fresh root (id 0, no
  children).  One unit of fuel for each byte of the buffer, and one more, is enough: see
  \<open>load_file_systemv_total\<close>.
\<close>

definition load_file_systemv_fuel :: "nat \<Rightarrow> byte list \<Rightarrow> (error + FSTNode) option" where
  "load_file_systemv_fuel fuel buf =
     (case sread 1 \<lparr>getvalue = buf, tell = 0\<rparr> of (b1, fst1) \<Rightarrow>
        if b1 \<noteq> [1] then Some (Inl InvalidFSTError)
        else (case sread 3 fst1 of (b3, fst2) \<Rightarrow>
        if b3 \<noteq> [0, 0, 0] then Some (Inl InvalidFSTError)
        else (case sread 4 fst2 of (b4, fst3) \<Rightarrow>
        if b4 \<noteq> [0, 0, 0, 0] then Some (Inl InvalidFSTError)
        else (case read_uint32 fst3 of
                Inl e \<Rightarrow> Some (Inl e)
              | Inr (entryCount, fst4) \<Rightarrow>
                  (case read_children fuel (entryCount * 0xC) (int entryCount) (fst4, 1) of
                     None \<Rightarrow> None
                   | Some (Inl e) \<Rightarrow> Some (Inl e)
                   | Some (Inr (cs, st)) \<Rightarrow> Some (Inr (folder_node [] cs)))))))"

definition load_file_systemv :: "byte list \<Rightarrow> (error + FSTNode) option" where
  "load_file_systemv buf = load_file_systemv_fuel (Suc (length buf)) buf"


section \<open>A forced location of 0 is no forced location\<close>











section \<open>The layout pass on concrete trees\<close>

text \<open>
  C2.  The alignment law for a forced location fails on the code: the loop of
  \<open>pre_calc_metadata\<close> stores the forced location rounded up to the alignment and then, having
  no \<open>continue\<close>, falls through to the automatic placement, which overwrites it.  A single
  file of 10 bytes with alignment 4 and forced location 4096 ends at offset \<open>MaxSize\<close>, not at
  \<open>align_int 4096 4 = 4096\<close>.
\<close>

theorem forced_location_overwritten:
  "(let root = folder_node [] [file_node ''a'' 10 4 (Some 4096) False]
    in map (\<lambda>n. fileoffset (attrs n))
         (rchildren (pre_calc_metadata root (MaxSize - get_auto_blob_size root)))) = [MaxSize]
   \<and> align_int 4096 4 = 4096 \<and> MaxSize \<noteq> 4096"
  by (simp add: folder_node_def file_node_def pre_calc_metadata_def pre_calc_step_def
        get_auto_blob_size_def align_int_def MaxSize_def truthy_def len_node_def)

text \<open>
  C3.  The automatic payload size is not the number of bytes the placement pass consumes.  For
  two files of 10 bytes, the second with alignment 32, \<open>get_auto_blob_size\<close> gives 42; the pass
  started at \<open>MaxSize - 42\<close> advances its running offset by 20 only and puts the second file
  at \<open>MaxSize\<close>, outside the region that ends at the capacity.
\<close>

theorem auto_blob_size_not_consumed:
  "(let root = folder_node [] [file_node ''a'' 10 4 None False, file_node ''b'' 10 32 None False]
    in (get_auto_blob_size root,
        map (\<lambda>n. fileoffset (attrs n))
          (rchildren (pre_calc_metadata root (MaxSize - get_auto_blob_size root))),
        fst (snd (pre_calc_loop 0 (children root)
                   (align_int (MaxSize - get_auto_blob_size root) 4, 1)))
          - align_int (MaxSize - get_auto_blob_size root) 4))
   = (42, [MaxSize - 40, MaxSize], 20)"
  by (simp add: folder_node_def file_node_def pre_calc_metadata_def pre_calc_step_def
        get_auto_blob_size_def align_int_def MaxSize_def truthy_def len_node_def
        is_file_def node_size_def)

section \<open>The offsets of the layout pass\<close>

lemma placed_files_alt: "placed_files root = filter placed (map attrs (rchildren root))"
  by (simp add: placed_files_def)

lemma place_offsets_append:
  "place_offsets (xs @ ys) d =
   place_offsets xs d @ place_offsets ys (d + sum_list (map filesize (filter placed xs)))"
  by (induction xs arbitrary: d) (simp_all add: add.assoc)

lemma pre_calc_step_facts:
  assumes "pre_calc_step pid ds a (d, e) = (a', (d', e'))"
  shows "layout_key a' = layout_key a"
    and "placed a \<Longrightarrow> fileoffset a' = align_int d (alignment a) \<and> d' = d + filesize a"
    and "\<not> placed a \<Longrightarrow> d' = d"
  using assms
  by (auto simp: pre_calc_step_def Let_def layout_key_def placed_def split: if_splits)

lemma placed_key: "layout_key a' = layout_key a \<Longrightarrow> placed a' = placed a"
  by (simp add: layout_key_def placed_def)

lemma pre_calc_flat:
  "pre_calc_node pid n st = (n', st') \<Longrightarrow>
     map layout_key (map attrs (n' # rchildren n')) = map layout_key (map attrs (n # rchildren n)) \<and>
     map fileoffset (filter placed (map attrs (n' # rchildren n')))
       = place_offsets (map attrs (n # rchildren n)) (fst st) \<and>
     fst st' = fst st + sum_list (map filesize (filter placed (map attrs (n # rchildren n))))"
  "pre_calc_loop pid ns st = (ns', st') \<Longrightarrow>
     map layout_key (map attrs (rchildren_list ns')) = map layout_key (map attrs (rchildren_list ns)) \<and>
     map fileoffset (filter placed (map attrs (rchildren_list ns')))
       = place_offsets (map attrs (rchildren_list ns)) (fst st) \<and>
     fst st' = fst st + sum_list (map filesize (filter placed (map attrs (rchildren_list ns))))"
proof (induction pid n st and pid ns st arbitrary: n' st' and ns' st'
       rule: pre_calc_node_pre_calc_loop.induct)
  case (1 pid a cs st)
  obtain d e where st: "st = (d, e)" by (cases st)
  obtain a1 d1 e1 where s: "pre_calc_step pid (len_node (FSTNode a cs)) a st = (a1, (d1, e1))"
    by (cases "pre_calc_step pid (len_node (FSTNode a cs)) a st") auto
  obtain cs1 st1 where l: "pre_calc_loop (node_id a1) cs (d1, e1) = (cs1, st1)"
    by (cases "pre_calc_loop (node_id a1) cs (d1, e1)") auto
  from "1.prems" s l have n': "n' = FSTNode a1 cs1" and st': "st' = st1" by simp_all
  note f = pre_calc_step_facts [OF s [unfolded st]]
  from "1.IH" [OF s [symmetric] l] have ih:
    "map layout_key (map attrs (rchildren_list cs1)) = map layout_key (map attrs (rchildren_list cs))"
    "map fileoffset (filter placed (map attrs (rchildren_list cs1)))
       = place_offsets (map attrs (rchildren_list cs)) d1"
    "fst st1 = d1 + sum_list (map filesize (filter placed (map attrs (rchildren_list cs))))"
    by simp_all
  show ?case
  proof (cases "placed a")
    case True
    with f ih placed_key [OF f(1)] show ?thesis by (simp add: n' st' st)
  next
    case False
    with f ih placed_key [OF f(1)] show ?thesis by (simp add: n' st' st)
  qed
next
  case (2 pid st)
  then show ?case by auto
next
  case (3 pid c cs st)
  obtain c1 st1 where n: "pre_calc_node pid c st = (c1, st1)"
    by (cases "pre_calc_node pid c st") auto
  obtain cs2 st2 where l: "pre_calc_loop pid cs st1 = (cs2, st2)"
    by (cases "pre_calc_loop pid cs st1") auto
  from "3.prems" n l have ns': "ns' = c1 # cs2" and st': "st' = st2" by simp_all
  from "3.IH"(1) [OF n] have ih1:
    "map layout_key (map attrs (c1 # rchildren c1)) = map layout_key (map attrs (c # rchildren c))"
    "map fileoffset (filter placed (map attrs (c1 # rchildren c1)))
       = place_offsets (map attrs (c # rchildren c)) (fst st)"
    "fst st1 = fst st + sum_list (map filesize (filter placed (map attrs (c # rchildren c))))"
    by simp_all
  from "3.IH"(2) [OF n [symmetric] l] have ih2:
    "map layout_key (map attrs (rchildren_list cs2)) = map layout_key (map attrs (rchildren_list cs))"
    "map fileoffset (filter placed (map attrs (rchildren_list cs2)))
       = place_offsets (map attrs (rchildren_list cs)) (fst st1)"
    "fst st2 = fst st1 + sum_list (map filesize (filter placed (map attrs (rchildren_list cs))))"
    by simp_all
  have a: "map attrs (rchildren_list (c1 # cs2)) = map attrs (c1 # rchildren c1) @ map attrs (rchildren_list cs2)"
    by simp
  have b: "map attrs (rchildren_list (c # cs)) = map attrs (c # rchildren c) @ map attrs (rchildren_list cs)"
    by simp
  show ?case
    unfolding ns' st' a b
    using ih1 ih2 by (simp only: map_append filter_append place_offsets_append sum_list_append) simp
qed


lemma place_offsets_closed:
  "place_offsets as d =
   map (\<lambda>k. align_int (d + sum_list (map filesize (take k (filter placed as))))
                (alignment (filter placed as ! k)))
     [0..<length (filter placed as)]"
proof (induction as arbitrary: d)
  case Nil
  then show ?case by simp
next
  case (Cons a as)
  show ?case
  proof (cases "placed a")
    case True
    have "[0..<length (filter placed (a # as))] = 0 # map Suc [0..<length (filter placed as)]"
      using True by (simp add: upt_conv_Cons map_Suc_upt del: upt_Suc)
    then show ?thesis using True Cons.IH [of "d + filesize a"]
      by (simp add: o_def add.assoc del: upt_Suc)
  next
    case False
    then show ?thesis using Cons.IH by simp
  qed
qed

lemma placed_files_pre_calc:
  "map layout_key (map attrs (rchildren (pre_calc_metadata root s)))
     = map layout_key (map attrs (rchildren root))"
  "map fileoffset (placed_files (pre_calc_metadata root s))
     = place_offsets (map attrs (rchildren root)) (align_int s 4)"
proof -
  obtain a cs where r: "root = FSTNode a cs" by (cases root)
  obtain cs' st' where l: "pre_calc_loop (node_id a) cs (align_int s 4, 1) = (cs', st')"
    by (cases "pre_calc_loop (node_id a) cs (align_int s 4, 1)") auto
  from pre_calc_flat(2) [OF l] r l
  show "map layout_key (map attrs (rchildren (pre_calc_metadata root s)))
     = map layout_key (map attrs (rchildren root))"
    and "map fileoffset (placed_files (pre_calc_metadata root s))
     = place_offsets (map attrs (rchildren root)) (align_int s 4)"
    by (simp_all add: pre_calc_metadata_def placed_files_alt)
qed

lemma filter_placed_key:
  "map layout_key xs = map layout_key ys \<Longrightarrow>
   map layout_key (filter placed xs) = map layout_key (filter placed ys)"
proof (induction xs arbitrary: ys)
  case Nil
  then show ?case by simp
next
  case (Cons x xs)
  then obtain y ys' where ys: "ys = y # ys'" by (cases ys) auto
  with Cons.prems have k: "layout_key x = layout_key y" and r: "map layout_key xs = map layout_key ys'"
    by simp_all
  from Cons.IH [OF r] placed_key [OF k] k show ?case by (simp add: ys)
qed

lemma placed_files_key:
  "map layout_key (placed_files (pre_calc_metadata root s)) = map layout_key (placed_files root)"
  unfolding placed_files_alt by (rule filter_placed_key) (rule placed_files_pre_calc(1))

lemma layout_offsets:
  "map fileoffset (placed_files (pre_calc_metadata root s)) =
   map (\<lambda>k. align_int (align_int s 4 + sum_list (map filesize (take k (placed_files root))))
                (alignment (placed_files root ! k)))
     [0..<length (placed_files root)]"
proof -
  have "map fileoffset (placed_files (pre_calc_metadata root s))
        = place_offsets (map attrs (rchildren root)) (align_int s 4)"
    by (rule placed_files_pre_calc(2))
  also have "\<dots> = map (\<lambda>k. align_int (align_int s 4 + sum_list (map filesize (take k (placed_files root))))
                (alignment (placed_files root ! k))) [0..<length (placed_files root)]"
    unfolding placed_files_alt by (rule place_offsets_closed)
  finally show ?thesis .
qed

lemma dvd_sum_list_int: "(\<And>x. x \<in> set xs \<Longrightarrow> (d::int) dvd x) \<Longrightarrow> d dvd sum_list xs"
  by (induction xs) simp_all

lemma align_int_dvd: "al dvd num \<Longrightarrow> 0 < al \<Longrightarrow> align_int num al = num"
proof -
  assume d: "al dvd num" and p: "0 < al"
  then obtain q where q: "num = al * q" by (auto simp: dvd_def)
  have "(al * q + (al - 1)) div al = q"
    using p by (simp add: div_pos_pos_trivial)
  then show ?thesis by (simp add: align_int_def q)
qed

lemma align_int_mod: "align_int num al mod al = 0"
  by (simp add: align_int_def)

lemma align_int_ge: "0 < al \<Longrightarrow> num \<le> align_int num al"
proof -
  assume p: "0 < al"
  have "num + (al - 1) = (num + (al - 1)) div al * al + (num + (al - 1)) mod al" by simp
  moreover have "(num + (al - 1)) mod al \<le> al - 1" using p
    by (simp add: pos_mod_bound zle_diff1_eq)
  ultimately show ?thesis unfolding align_int_def by linarith
qed


lemma alignment_law:
  assumes "k < length (placed_files root)"
  shows "fileoffset (placed_files (pre_calc_metadata root s) ! k)
           mod alignment (placed_files (pre_calc_metadata root s) ! k) = 0"
proof -
  let ?P = "placed_files root" and ?Q = "placed_files (pre_calc_metadata root s)"
  have len: "length ?Q = length ?P"
    using placed_files_key [of root s] by (metis length_map)
  have "layout_key (?Q ! k) = layout_key (?P ! k)"
    using placed_files_key [of root s] assms len by (metis nth_map)
  then have al: "alignment (?Q ! k) = alignment (?P ! k)" by (simp add: layout_key_def)
  have "fileoffset (?Q ! k) = map fileoffset ?Q ! k" using assms len by simp
  also have "\<dots> = align_int (align_int s 4 + sum_list (map filesize (take k ?P)))
                      (alignment (?P ! k))"
    unfolding layout_offsets using assms by simp
  finally show ?thesis by (simp add: al align_int_mod)
qed

lemma oseek_Inl: "oseek p f = Inl e \<longleftrightarrow> e = OSError \<and> p < 0"
  by (auto simp: oseek_def)

lemma write_files_fails:
  "write_files fnm tbl rb xs ISO = Inl e \<longleftrightarrow>
   e = OSError \<and> (\<exists>(p, c) \<in> set xs. is_file c \<and> \<not> get_excluded fnm tbl p \<and> fileoffset (attrs c) < 0)"
proof (induction xs arbitrary: ISO)
  case Nil
  then show ?case by simp
next
  case (Cons x xs)
  obtain p c where x: "x = (p, c)" by (cases x)
  show ?case
  proof (cases "is_file c \<and> \<not> get_excluded fnm tbl p")
    case False
    then show ?thesis using Cons.IH [of ISO] by (auto simp: x)
  next
    case w: True
    show ?thesis
    proof (cases "fileoffset (attrs c) < 0")
      case True
      then show ?thesis using w by (auto simp: x oseek_def)
    next
      case False
      then have s: "oseek (fileoffset (attrs c)) (owrite (zeros (fileoffset (attrs c) - opos ISO)) ISO)
          = Inr ((owrite (zeros (fileoffset (attrs c) - opos ISO)) ISO)\<lparr>opos := fileoffset (attrs c)\<rparr>)"
        by (simp add: oseek_def)
      show ?thesis using w False Cons.IH unfolding x by (simp add: s)
    qed
  qed
qed

text \<open>
  C4, as the code has it.  Neither the layout pass nor the build looks for overlapping ranges,
  and the code has no \<open>LayoutConflict\<close>.  For every tree, laid out or not, the loop of \<open>build\<close>
  that writes the files and the padding after it fail only with the error of a seek, and
  exactly when a file that the loop writes has a negative offset; whether two ranges overlap
  has no part in it.
\<close>

theorem build_fails_only_on_negative_offset:
  "build_files fnm tbl rb root ISO = Inl e \<longleftrightarrow>
   e = OSError \<and>
   (\<exists>(p, c) \<in> set (rfiles root). \<not> get_excluded fnm tbl p \<and> fileoffset (attrs c) < 0)"
proof -
  have "build_files fnm tbl rb root ISO = Inl e \<longleftrightarrow>
        write_files fnm tbl rb (rfiles root) ISO = Inl e"
    by (simp add: build_files_def split: sum.splits)
  also have "\<dots> \<longleftrightarrow> e = OSError \<and>
     (\<exists>(p, c) \<in> set (rfiles root). is_file c \<and> \<not> get_excluded fnm tbl p \<and> fileoffset (attrs c) < 0)"
    by (rule write_files_fails)
  also have "\<dots> \<longleftrightarrow> e = OSError \<and>
     (\<exists>(p, c) \<in> set (rfiles root). \<not> get_excluded fnm tbl p \<and> fileoffset (attrs c) < 0)"
    by (auto simp: rfiles_def)
  finally show ?thesis .
qed

text \<open>
  The claim of the spec fails on three files \<open>a\<close> (10 bytes), \<open>b\<close> (20 bytes, alignment 32) and
  \<open>c\<close> (40 bytes): the pass that \<open>build\<close> runs gives \<open>b\<close> the range from \<open>MaxSize - 64\<close> to
  \<open>MaxSize - 44\<close> and \<open>c\<close> the range from \<open>MaxSize - 60\<close> to \<open>MaxSize - 20\<close>; the writing loop
  raises nothing and the image ends with the first byte of \<open>c\<close> at \<open>MaxSize - 60\<close>, where the
  fifth byte of \<open>b\<close> had been written.
\<close>

theorem overlap_written_counterexample:
  "(let root = save_layout 0 False True
                 (folder_node [] [file_node ''a'' 10 4 None False, file_node ''b'' 20 32 None False,
                                  file_node ''c'' 40 4 None False])
    in map (\<lambda>a. (fileoffset a, fileoffset a + filesize a)) (placed_files root)
         = [(MaxSize - 92, MaxSize - 82), (MaxSize - 64, MaxSize - 44), (MaxSize - 60, MaxSize - 20)]
       \<and> (case build_files glob_match []
                 (\<lambda>p. if p = ''a'' then replicate 10 0xAA else if p = ''b'' then replicate 20 0xBB
                       else replicate 40 0xCC)
                 root \<lparr>odata = (\<lambda>i. 0), osize = 4096, opos = 4096\<rparr> of
             Inl e \<Rightarrow> False
           | Inr ISO \<Rightarrow> odata ISO (MaxSize - 60) = 0xCC \<and> osize ISO = MaxSize))"
  by (simp add: folder_node_def file_node_def pre_calc_metadata_def pre_calc_step_def
        get_auto_blob_size_def align_int_def MaxSize_def truthy_def len_node_def
        is_file_def node_size_def save_layout_def placed_files_def placed_def build_files_def
        rfiles_def join_path_def get_excluded_def oseek_def oseek_end_def owrite_def zeros_def)

section \<open>The size check of \<open>from_root\<close>\<close>










section \<open>Alignment resolution\<close>

lemma alignment_loop_no_match:
  "\<forall>k \<in> fst ` set xs. \<not> fnm path (strip k) \<Longrightarrow> alignment_loop fnm path xs = 4"
  by (induction xs) auto

lemma alignment_loop_first:
  assumes "sorted (map fst xs)" "distinct (map fst xs)"
    and "\<exists>k \<in> fst ` set xs. fnm path (strip k)"
  shows "alignment_loop fnm path xs =
         the (map_of xs (Min {k \<in> fst ` set xs. fnm path (strip k)}))"
  using assms
proof (induction xs)
  case Nil
  then show ?case by simp
next
  case (Cons x xs)
  obtain k v where x: "x = (k, v)" by (cases x)
  let ?M = "{k' \<in> fst ` set (x # xs). fnm path (strip k')}"
  let ?N = "{k' \<in> fst ` set xs. fnm path (strip k')}"
  have fin: "finite ?M" by simp
  show ?case
  proof (cases "fnm path (strip k)")
    case True
    have "k \<in> ?M" using True x by simp
    moreover have "\<forall>k' \<in> ?M. k \<le> k'" using Cons.prems(1) x by auto
    ultimately have "Min ?M = k" using fin by (meson Min_eqI)
    then show ?thesis using True x by simp
  next
    case False
    have M: "?M = ?N" using False x by auto
    have ex: "\<exists>k \<in> fst ` set xs. fnm path (strip k)" using Cons.prems(3) False x by auto
    then have ne: "?N \<noteq> {}" by blast
    have "Min ?N \<in> ?N"
      by (rule Min_in) (use ne in simp_all)
    then have "Min ?N \<in> fst ` set xs" by blast
    then have neq: "Min ?N \<noteq> k"
      using Cons.prems(2) x by auto
    have "alignment_loop fnm path (x # xs) = alignment_loop fnm path xs" using False x by simp
    also have "\<dots> = the (map_of xs (Min ?N))"
      using Cons.IH Cons.prems ex by simp
    finally show ?thesis using M neq x by simp
  qed
qed

lemma map_of_SortedDict:
  "distinct (map fst d) \<Longrightarrow> map_of (SortedDict d) = map_of d"
  unfolding SortedDict_def
  by (rule map_of_inject_set [THEN iffD2]) (simp_all add: distinct_map)

text \<open>
  C7, as the code has it.  For a table built from a dictionary \<open>d\<close>, \<open>_get_alignment\<close> returns
  the value of the lexicographically least pattern that matches the path once the white space
  around the pattern is stripped, and 4 when no pattern does.  The matcher is arbitrary.
\<close>

theorem get_alignment_first_match:
  assumes "distinct (map fst d)"
  shows "get_alignment fnm (SortedDict d) path =
         (if \<exists>k \<in> fst ` set d. fnm path (strip k)
          then the (map_of d (Min {k \<in> fst ` set d. fnm path (strip k)})) else 4)"
proof -
  let ?xs = "SortedDict d"
  have s: "sorted (map fst ?xs)" by (simp add: SortedDict_def)
  have di: "distinct (map fst ?xs)" using assms by (simp add: SortedDict_def distinct_map)
  have st: "set ?xs = set d" by (simp add: SortedDict_def)
  show ?thesis
  proof (cases "\<exists>k \<in> fst ` set d. fnm path (strip k)")
    case True
    then have "d \<noteq> []" by auto
    then have ne: "?xs \<noteq> []" using st by (metis set_empty)
    from True have ex: "\<exists>k \<in> fst ` set ?xs. fnm path (strip k)" using st by simp
    have "alignment_loop fnm path ?xs =
          the (map_of ?xs (Min {k \<in> fst ` set ?xs. fnm path (strip k)}))"
      using s di ex by (rule alignment_loop_first)
    with ne True show ?thesis
      by (simp add: get_alignment_def st map_of_SortedDict [OF assms])
  next
    case False
    then have "\<forall>k \<in> fst ` set ?xs. \<not> fnm path (strip k)" using st by simp
    then have "alignment_loop fnm path ?xs = 4" by (rule alignment_loop_no_match)
    with False show ?thesis
      by (simp add: get_alignment_def)
  qed
qed

text \<open>
  The scenario of the spec: the patterns \<open>a*\<close> (value 8) and \<open>*.bin\<close> (value 32) both match
  \<open>abc.bin\<close>; \<open>*.bin\<close> sorts first, so the result is 32.
\<close>

theorem get_alignment_first_match_witness:
  "distinct (map fst [(''a*'', 8::int), (''*.bin'', 32)]) \<and>
   get_alignment glob_match (SortedDict [(''a*'', 8), (''*.bin'', 32)]) ''abc.bin'' = 32"
  using get_alignment_first_match [of "[(''a*'', 8::int), (''*.bin'', 32)]" glob_match "''abc.bin''"]
  by (simp add: SortedDict_def get_alignment_def strip_def is_space_def)

text \<open>
  The claim as the spec states it, the first pattern whose glob matches the path, fails for a
  pattern written with white space around it: the pattern \<open>" a*"\<close> does not match \<open>abc.bin\<close>,
  so no pattern of the table matches and the claim gives the default 4; the code strips the
  pattern to \<open>a*\<close> and returns 8.
\<close>

theorem get_alignment_unstripped_counterexample:
  "get_alignment glob_match (SortedDict [('' a*'', 8)]) ''abc.bin'' = 8 \<and>
   \<not> glob_match ''abc.bin'' '' a*''"
  by (simp add: SortedDict_def get_alignment_def strip_def is_space_def)

section \<open>The start of the data region\<close>

text \<open>
  C9.  With the table \<open>{"*": 32}\<close> and one file of 10 bytes and alignment 32, \<open>build\<close> computes
  \<open>(MaxSize - 10) & -32 = MaxSize - 32\<close> and passes it to \<open>save_file_systemv\<close>, which does not
  read it: the placement pass runs from \<open>MaxSize - get_auto_blob_size()\<close>, not rounded down, and
  puts the file at \<open>MaxSize\<close> where the start \<open>build\<close> computed would have put it at
  \<open>MaxSize - 32\<close>.  And the alignment \<open>build\<close> rounds down to is the value of the last pattern of
  the table, not the largest value: 8 for \<open>{"a*": 32, "b*": 8}\<close>.
\<close>

theorem build_startpos_not_passed:
  "(let tbl = SortedDict [(''*'', 32)];
        root = folder_node [] [file_node ''a'' 10 32 None False]
    in (build_startpos tbl root,
        map fileoffset (placed_files (save_layout (build_startpos tbl root) False True root)),
        map fileoffset (placed_files (pre_calc_metadata root (build_startpos tbl root)))))
   = (MaxSize - 32, [MaxSize], [MaxSize - 32])
   \<and> get_greatest_alignment (SortedDict [(''a*'', 32), (''b*'', 8)]) = 8"
  by (simp add: folder_node_def file_node_def pre_calc_metadata_def pre_calc_step_def
        get_auto_blob_size_def align_int_def MaxSize_def truthy_def len_node_def
        is_file_def node_size_def SortedDict_def build_startpos_def save_layout_def
        get_greatest_alignment_def placed_files_def placed_def)

section \<open>Decoding\<close>











lemma take8:
  "(take 8 buf = [1, 0, 0, 0, 0, 0, 0, 0 :: byte]) =
   (take 1 buf = [1] \<and> take 3 (drop 1 buf) = [0, 0, 0] \<and> take 4 (drop 4 buf) = [0, 0, 0, 0])"
proof -
  have e: "take 8 buf = take 1 buf @ take 3 (drop 1 buf) @ take 4 (drop 4 buf)"
    using take_add [of 1 7 buf] take_add [of 3 4 "drop 1 buf"] by simp
  show ?thesis
  proof
    assume a: "take 8 buf = [1, 0, 0, 0, 0, 0, 0, 0]"
    then have "length (take 8 buf) = 8" by simp
    then have l: "8 \<le> length buf" by simp
    have "take 1 (take 8 buf) = take 1 buf" by (simp add: min_def)
    then have 1: "take 1 buf = [1]" using a by simp
    have "take 3 (drop 1 (take 8 buf)) = take 3 (drop 1 buf)" by (simp add: drop_take min_def)
    then have 2: "take 3 (drop 1 buf) = [0, 0, 0]" using a by simp
    have "drop 4 (take 8 buf) = take 4 (drop 4 buf)" by (simp add: drop_take)
    then have 3: "take 4 (drop 4 buf) = [0, 0, 0, 0]" using a by simp
    from 1 2 3 show "take 1 buf = [1] \<and> take 3 (drop 1 buf) = [0, 0, 0] \<and> take 4 (drop 4 buf) = [0, 0, 0, 0]"
      by simp
  next
    assume "take 1 buf = [1] \<and> take 3 (drop 1 buf) = [0, 0, 0] \<and> take 4 (drop 4 buf) = [0, 0, 0, 0]"
    with e show "take 8 buf = [1, 0, 0, 0, 0, 0, 0, 0]" by simp
  qed
qed

lemma read_uint32_at:
  "read_uint32 \<lparr>getvalue = buf, tell = p\<rparr> =
     (if length buf < p + 4 then Inl ReadError
      else Inr (from_bytes_big (take 4 (drop p buf)), \<lparr>getvalue = buf, tell = p + 4\<rparr>))"
  by (auto simp: read_uint32_def sread_def)

lemma load_unfold:
  "load_file_systemv_fuel fuel buf =
     (if take 1 buf \<noteq> [1] then Some (Inl InvalidFSTError)
      else if take 3 (drop 1 buf) \<noteq> [0, 0, 0] then Some (Inl InvalidFSTError)
      else if take 4 (drop 4 buf) \<noteq> [0, 0, 0, 0] then Some (Inl InvalidFSTError)
      else if length buf < 12 then Some (Inl ReadError)
      else (case read_children fuel (from_bytes_big (take 4 (drop 8 buf)) * 12)
                   (int (from_bytes_big (take 4 (drop 8 buf))))
                   (\<lparr>getvalue = buf, tell = 12\<rparr>, 1) of
              None \<Rightarrow> None
            | Some (Inl e) \<Rightarrow> Some (Inl e)
            | Some (Inr (cs, st)) \<Rightarrow> Some (Inr (folder_node [] cs))))"
proof (cases "take 1 buf = [1]")
  case False
  then show ?thesis by (simp add: load_file_systemv_fuel_def sread_def)
next
  case b1: True
  then have "length (take 1 buf) = 1" by simp
  then have n1: "1 \<le> length buf" by simp
  show ?thesis
  proof (cases "take 3 (drop 1 buf) = [0, 0, 0]")
    case False
    with b1 n1 show ?thesis by (simp add: load_file_systemv_fuel_def sread_def)
  next
    case b3: True
    then have "length (take 3 (drop 1 buf)) = 3" by simp
    then have n4: "4 \<le> length buf" by simp
    show ?thesis
    proof (cases "take 4 (drop 4 buf) = [0, 0, 0, 0]")
      case False
      with b1 b3 n4 show ?thesis by (simp add: load_file_systemv_fuel_def sread_def)
    next
      case b4: True
      then have "length (take 4 (drop 4 buf)) = 4" by simp
      then have n8: "8 \<le> length buf" by simp
      with b1 b3 b4 show ?thesis
        by (simp add: load_file_systemv_fuel_def sread_def read_uint32_at
              del: read_children.simps read_nodes.simps)
    qed
  qed
qed

lemma load_root_checks:
  "load_file_systemv_fuel fuel buf =
     (if take 8 buf \<noteq> [1, 0, 0, 0, 0, 0, 0, 0] then Some (Inl InvalidFSTError)
      else if length buf < 12 then Some (Inl ReadError)
      else (case read_children fuel (from_bytes_big (take 4 (drop 8 buf)) * 12)
                   (int (from_bytes_big (take 4 (drop 8 buf))))
                   (\<lparr>getvalue = buf, tell = 12\<rparr>, 1) of
              None \<Rightarrow> None
            | Some (Inl e) \<Rightarrow> Some (Inl e)
            | Some (Inr (cs, st)) \<Rightarrow> Some (Inr (folder_node [] cs))))"
  unfolding load_unfold [of fuel buf] take8 [of buf] by (simp only: de_Morgan_conj if_split simp_thms) auto


text \<open>
  C5, as the code has it.  \<open>load_file_systemv\<close> checks the first 8 bytes of the buffer: the type
  byte 1, the name offset 0 and field A 0; any deviation, a buffer shorter than 8 bytes
  included, is \<open>InvalidFSTError\<close>.  The next four bytes, at 8 to 12, are field B of the root
  record: they are not checked but read, big-endian, as the entry count.  The records of the
  entries are read from offset 12, the running id starting at 1, with the string table at 12
  times the entry count.
\<close>

theorem load_file_systemv_root_record:
  "load_file_systemv buf =
     (if take 8 buf \<noteq> [1, 0, 0, 0, 0, 0, 0, 0] then Some (Inl InvalidFSTError)
      else if length buf < 12 then Some (Inl ReadError)
      else (case read_children (Suc (length buf)) (from_bytes_big (take 4 (drop 8 buf)) * 12)
                   (int (from_bytes_big (take 4 (drop 8 buf))))
                   (\<lparr>getvalue = buf, tell = 12\<rparr>, 1) of
              None \<Rightarrow> None
            | Some (Inl e) \<Rightarrow> Some (Inl e)
            | Some (Inr (cs, st)) \<Rightarrow> Some (Inr (folder_node [] cs))))"
  unfolding load_file_systemv_def by (rule load_root_checks)

text \<open>
  The claim of the spec, that field B of the root record must be 0 and that the entry count is
  at bytes 12 to 16, fails: a root record whose field B is 1 decodes to an empty tree; and the
  table of one file, with 2 in field B of the root, decodes to that file, while its bytes 12 to
  16 are the first four bytes of the record of the file.
\<close>

theorem root_field_b_counterexample:
  "load_file_systemv [1, 0, 0, 0, 0, 0, 0, 0, 0, 0, 0, 1] = Some (Inr (folder_node [] []))
   \<and> load_file_systemv
        [1, 0, 0, 0, 0, 0, 0, 0, 0, 0, 0, 2, 0, 0, 0, 0, 0, 0, 0x10, 0, 0, 0, 0, 4, 0x61, 0]
      = Some (Inr (folder_node []
          [FSTNode (empty_node\<lparr>name := ''a'', node_id := 1, filesize := 4, fileoffset := 4096\<rparr>) []]))"
  by code_simp





end
